theory Spec2Isabelle
  imports Complex_Main
begin

section \<open>Dates\<close>

text \<open>
  A JavaScript \<open>Date\<close> is read and written by \<open>calculateNextRecurringDate\<close> through its
  local-time fields only (\<open>getMonth\<close>, \<open>setMonth\<close>, \<open>getFullYear\<close>, \<open>setFullYear\<close>). The
  model keeps exactly these fields: the year, the month index (0 = January, as \<open>getMonth\<close>
  counts), the day of the month (from 1) and the milliseconds since local midnight. The
  offset of local time from UTC is taken to be the same at both dates.
\<close>

record jsdate =
  year :: int
  month :: nat
  day :: nat
  time :: nat

definition leap_year :: "int \<Rightarrow> bool" where
  "leap_year y = (y mod 4 = 0 \<and> (y mod 400 = 0 \<or> y mod 100 \<noteq> 0))"

definition days_in_month :: "int \<Rightarrow> nat \<Rightarrow> nat" where
  "days_in_month y m =
     (if m = 1 then (if leap_year y then 29 else 28)
      else if m = 3 \<or> m = 5 \<or> m = 8 \<or> m = 10 then 30
      else 31)"

definition valid_date :: "jsdate \<Rightarrow> bool" where
  "valid_date d =
     (month d < 12 \<and> 1 \<le> day d \<and> day d \<le> days_in_month (year d) (month d)
      \<and> time d < 86400000)"

text \<open>
  \<open>make_day y m d\<close> is the calendar date that ECMAScript's \<open>MakeDay\<close> denotes for year \<open>y\<close>,
  month index \<open>m\<close> (possibly 12 or more) and day-of-month \<open>d \<ge> 1\<close> (possibly beyond the end of
  the month): months beyond December carry into the year, and days beyond the end of a
  month carry into the following months. Nothing is clamped.
\<close>

function make_day :: "int \<Rightarrow> nat \<Rightarrow> nat \<Rightarrow> int \<times> nat \<times> nat" where
  "make_day y m d =
     (let y' = y + int (m div 12); m' = m mod 12; n = days_in_month y' m'
      in if n < d then make_day y' (m' + 1) (d - n) else (y', m', d))"
  by pat_completeness auto
termination
  by (relation "measure (\<lambda>(y, m, d). d)") (auto simp: days_in_month_def)

definition getMonth :: "jsdate \<Rightarrow> nat" where
  "getMonth d = month d"

definition getFullYear :: "jsdate \<Rightarrow> int" where
  "getFullYear d = year d"

definition setMonth :: "jsdate \<Rightarrow> nat \<Rightarrow> jsdate" where
  "setMonth d m =
     (case make_day (year d) m (day d) of
        (y', m', d') \<Rightarrow> d\<lparr>year := y', month := m', day := d'\<rparr>)"

definition setFullYear :: "jsdate \<Rightarrow> int \<Rightarrow> jsdate" where
  "setFullYear d y =
     (case make_day y (month d) (day d) of
        (y', m', d') \<Rightarrow> d\<lparr>year := y', month := m', day := d'\<rparr>)"

text \<open>Dates compare by their instant: for dates in one time zone, field by field.\<close>

definition date_before :: "jsdate \<Rightarrow> jsdate \<Rightarrow> bool" where
  "date_before a b =
     (year a < year b \<or>
      (year a = year b \<and>
       (month a < month b \<or>
        (month a = month b \<and>
         (day a < day b \<or> (day a = day b \<and> time a < time b))))))"

section \<open>Recurrence: \<open>calculateNextRecurringDate\<close>\<close>

datatype RecurringInterval = DAILY | WEEKLY | MONTHLY | YEARLY

text \<open>
  The source copies the date (\<open>new Date(date)\<close>) and switches on the interval. The switch
  has the cases \<open>"MONTHLY"\<close> and \<open>"YEARLY"\<close> and a \<open>default\<close> that does nothing, so \<open>DAILY\<close>
  and \<open>WEEKLY\<close> return the copy as it is.
\<close>

definition calculateNextRecurringDate :: "jsdate \<Rightarrow> RecurringInterval \<Rightarrow> jsdate" where
  "calculateNextRecurringDate date interval =
     (let d = date in
      case interval of
        MONTHLY \<Rightarrow> setMonth d (getMonth d + 1)
      | YEARLY \<Rightarrow> setFullYear d (getFullYear d + 1)
      | _ \<Rightarrow> d)"

section \<open>The ledger store\<close>

text \<open>
  The store is the database behind the Prisma client \<open>db\<close>: the tables the two files read
  and write, with the columns they touch. Accounts and transactions are keyed by their
  primary key \<open>id\<close>; users are kept as the list of rows. Decimal columns
  (\<open>balance\<close>, \<open>amount\<close>) and the JavaScript numbers the code computes with
  (\<open>toNumber()\<close>, \<open>+\<close>, \<open>-\<close>) are modelled as exact real numbers.
\<close>

datatype TransactionType = INCOME | EXPENSE

record user =
  user_id :: string
  clerkUserId :: string
  email :: string
  name :: string
  imageUrl :: string

record account =
  account_userId :: string
  balance :: real

text \<open>The \<open>data\<close> object a caller passes to \<open>createTransaction\<close> and \<open>updateTransaction\<close>.\<close>

record transaction_data =
  type :: TransactionType
  amount :: real
  date :: jsdate
  description :: string
  category :: string
  accountId :: string
  isRecurring :: bool
  recurringInterval :: "RecurringInterval option"

text \<open>A stored row: the fields of \<open>data\<close> (\<open>...data\<close>) and the columns the code adds.\<close>

record transaction = transaction_data +
  transaction_id :: string
  transaction_userId :: string
  nextRecurringDate :: "jsdate option"

record db =
  users :: "user list"
  accounts :: "string \<rightharpoonup> account"
  transactions :: "string \<rightharpoonup> transaction"

datatype db_error = RecordNotFound | UniqueConstraintViolation

datatype error = Error string | DbError db_error | TypeError

subsection \<open>The Prisma calls the code makes\<close>

text \<open>\<open>db.user.findUnique({ where: { clerkUserId } })\<close>\<close>

definition user_findUnique :: "db \<Rightarrow> string \<Rightarrow> user option" where
  "user_findUnique s uid = find (\<lambda>u. clerkUserId u = uid) (users s)"

text \<open>\<open>db.account.findUnique({ where: { id, userId } })\<close>\<close>

definition account_findUnique :: "db \<Rightarrow> string \<Rightarrow> string \<Rightarrow> account option" where
  "account_findUnique s aid uid =
     (case accounts s aid of
        None \<Rightarrow> None
      | Some a \<Rightarrow> if account_userId a = uid then Some a else None)"

text \<open>\<open>db.transaction.findUnique({ where: { id, userId } })\<close>\<close>

definition transaction_findUnique :: "db \<Rightarrow> string \<Rightarrow> string \<Rightarrow> transaction option" where
  "transaction_findUnique s tid uid =
     (case transactions s tid of
        None \<Rightarrow> None
      | Some t \<Rightarrow> if transaction_userId t = uid then Some t else None)"

text \<open>\<open>tx.transaction.create({ data })\<close>: a new row under its primary key.\<close>

definition transaction_create :: "db \<Rightarrow> transaction \<Rightarrow> error + db" where
  "transaction_create s row =
     (case transactions s (transaction_id row) of
        Some _ \<Rightarrow> Inl (DbError UniqueConstraintViolation)
      | None \<Rightarrow> Inr (s\<lparr>transactions := (transactions s)(transaction_id row \<mapsto> row)\<rparr>))"

text \<open>
  \<open>tx.transaction.update({ where: { id, userId }, data })\<close>: the row is rewritten by \<open>f\<close>;
  the call throws when no row matches.
\<close>

definition transaction_update ::
  "db \<Rightarrow> string \<Rightarrow> string \<Rightarrow> (transaction \<Rightarrow> transaction) \<Rightarrow> error + (transaction \<times> db)" where
  "transaction_update s tid uid f =
     (case transaction_findUnique s tid uid of
        None \<Rightarrow> Inl (DbError RecordNotFound)
      | Some t \<Rightarrow> Inr (f t, s\<lparr>transactions := (transactions s)(tid \<mapsto> f t)\<rparr>))"

text \<open>
  \<open>tx.account.update({ where: { id }, data })\<close>: the account is looked up by \<open>id\<close> alone;
  the call throws when there is none.
\<close>

definition account_update :: "db \<Rightarrow> string \<Rightarrow> (account \<Rightarrow> account) \<Rightarrow> error + db" where
  "account_update s aid f =
     (case accounts s aid of
        None \<Rightarrow> Inl (DbError RecordNotFound)
      | Some a \<Rightarrow> Inr (s\<lparr>accounts := (accounts s)(aid \<mapsto> f a)\<rparr>))"

text \<open>
  \<open>db.$transaction(async (tx) => ...)\<close>: the body runs on the store; when it throws, every
  write it made is rolled back and the error is passed on; when it returns, its writes
  are committed.
\<close>

definition db_transaction :: "db \<Rightarrow> (db \<Rightarrow> error + ('a \<times> db)) \<Rightarrow> db \<times> (error + 'a)" where
  "db_transaction s body =
     (case body s of
        Inl e \<Rightarrow> (s, Inl e)
      | Inr (x, s') \<Rightarrow> (s', Inr x))"

section \<open>\<open>createTransaction\<close> and \<open>updateTransaction\<close>\<close>

text \<open>The verdict of the rate limiter (\<open>aj.protect\<close>).\<close>

datatype decision = Allowed | DeniedRateLimit | DeniedOther

text \<open>
  \<open>nextRecurringDate\<close> as both operations compute it:
  \<open>data.isRecurring && data.recurringInterval ? calculateNextRecurringDate(...) : null\<close>.
\<close>

definition next_recurring :: "transaction_data \<Rightarrow> jsdate option" where
  "next_recurring data =
     (if isRecurring data then
        (case recurringInterval data of
           Some interval \<Rightarrow> Some (calculateNextRecurringDate (date data) interval)
         | None \<Rightarrow> None)
      else None)"

text \<open>
  \<open>createTransaction(data)\<close>. \<open>auth\<close> is the user id the identity provider reports (\<open>None\<close>
  when nobody is signed in), \<open>verdict\<close> the rate limiter's decision, \<open>newId\<close> the primary key
  the database generates for the new row. The result is the store afterwards and either
  the error thrown or the row returned. The \<open>catch\<close> rethrows every error with its message.
  \<open>revalidatePath\<close> refreshes cached pages and does not touch the store; it is left out.
\<close>

definition createTransaction ::
  "string option \<Rightarrow> decision \<Rightarrow> string \<Rightarrow> db \<Rightarrow> transaction_data \<Rightarrow> db \<times> (error + transaction)" where
  "createTransaction auth verdict newId s data =
     (case auth of
        None \<Rightarrow> (s, Inl (Error ''Unauthorized''))
      | Some userId \<Rightarrow>
     (case verdict of
        DeniedRateLimit \<Rightarrow> (s, Inl (Error ''Too many requests. Please try again later.''))
      | DeniedOther \<Rightarrow> (s, Inl (Error ''Request blocked''))
      | Allowed \<Rightarrow>
     (case user_findUnique s userId of
        None \<Rightarrow> (s, Inl (Error ''User not found''))
      | Some user \<Rightarrow>
     (case account_findUnique s (accountId data) (user_id user) of
        None \<Rightarrow> (s, Inl (Error ''Account not found''))
      | Some account \<Rightarrow>
          let balanceChange = (if type data = EXPENSE then - amount data else amount data);
              newBalance = balance account + balanceChange
          in db_transaction s (\<lambda>tx.
               let row = \<lparr>type = type data, amount = amount data, date = date data,
                          description = description data, category = category data,
                          accountId = accountId data, isRecurring = isRecurring data,
                          recurringInterval = recurringInterval data,
                          transaction_id = newId, transaction_userId = user_id user,
                          nextRecurringDate = next_recurring data\<rparr>
               in case transaction_create tx row of
                    Inl e \<Rightarrow> Inl e
                  | Inr tx1 \<Rightarrow>
                      (case account_update tx1 (accountId data) (\<lambda>a. a\<lparr>balance := newBalance\<rparr>) of
                         Inl e \<Rightarrow> Inl e
                       | Inr tx2 \<Rightarrow> Inr (row, tx2)))))))"

text \<open>
  \<open>updateTransaction(id, data)\<close>. The row keeps its key and owner and takes the fields of
  \<open>data\<close>; an interval that \<open>data\<close> does not carry leaves the stored one as it is (Prisma
  skips an undefined field). The balance of the account \<open>data.accountId\<close> names is
  incremented by \<open>netChange\<close>.
\<close>

definition updateTransaction ::
  "string option \<Rightarrow> db \<Rightarrow> string \<Rightarrow> transaction_data \<Rightarrow> db \<times> (error + transaction)" where
  "updateTransaction auth s tid data =
     (case auth of
        None \<Rightarrow> (s, Inl (Error ''Unauthorized''))
      | Some userId \<Rightarrow>
     (case user_findUnique s userId of
        None \<Rightarrow> (s, Inl (Error ''User not found''))
      | Some user \<Rightarrow>
     (case transaction_findUnique s tid (user_id user) of
        None \<Rightarrow> (s, Inl (Error ''Transaction not found''))
      | Some original \<Rightarrow>
          let oldChange = (if type original = EXPENSE then - amount original else amount original);
              newChange = (if type data = EXPENSE then - amount data else amount data);
              netChange = newChange - oldChange
          in db_transaction s (\<lambda>tx.
               case transaction_update tx tid (user_id user)
                      (\<lambda>t. t\<lparr>type := type data, amount := amount data, date := date data,
                              description := description data, category := category data,
                              accountId := accountId data, isRecurring := isRecurring data,
                              recurringInterval :=
                                (case recurringInterval data of
                                   None \<Rightarrow> recurringInterval t
                                 | Some i \<Rightarrow> Some i),
                              nextRecurringDate := next_recurring data\<rparr>) of
                 Inl e \<Rightarrow> Inl e
               | Inr (updated, tx1) \<Rightarrow>
                   (case account_update tx1 (accountId data)
                           (\<lambda>a. a\<lparr>balance := balance a + netChange\<rparr>) of
                      Inl e \<Rightarrow> Inl e
                    | Inr tx2 \<Rightarrow> Inr (updated, tx2))))))"

text \<open>The signed amount as the specification words it.\<close>

definition signed :: "TransactionType \<Rightarrow> real \<Rightarrow> real" where
  "signed t a = (case t of INCOME \<Rightarrow> a | EXPENSE \<Rightarrow> - a)"

section \<open>Strings\<close>

text \<open>
  Text is a list of characters with codes below 256. \<open>String.prototype.trim\<close> removes
  white space and line terminators from both ends; in this range they are the codes
  9 to 13, 32 and 160.
\<close>

definition js_space :: "char \<Rightarrow> bool" where
  "js_space c = (let n = (of_char c :: nat) in (9 \<le> n \<and> n \<le> 13) \<or> n = 32 \<or> n = 160)"

definition js_trim :: "string \<Rightarrow> string" where
  "js_trim s = rev (dropWhile js_space (rev (dropWhile js_space s)))"


section \<open>\<open>checkUser\<close>\<close>




section \<open>\<open>scanReceipt\<close>\<close>

subsection \<open>Values of the JavaScript runtime\<close>

text \<open>What \<open>JSON.parse\<close> can return.\<close>

datatype json =
  JNull
  | JBool bool
  | JNum real
  | JStr string
  | JArr "json list"
  | JObj "(string \<times> json) list"

text \<open>A JavaScript number as \<open>Number(...)\<close> returns it: \<open>NaN\<close> or a value.\<close>

datatype jsnum = NaN | Num real

text \<open>A \<open>Date\<close> object as \<open>new Date(...)\<close> returns it.\<close>

datatype date_value = InvalidDate | ValidDate jsdate

text \<open>\<open>Buffer.from(buffer).toString("base64")\<close>: the bytes, in their base64 writing.\<close>

datatype base64 = Base64 "nat list"

record upload =
  bytes :: "nat list"
  file_type :: string

record inlineData =
  mimeType :: string
  data64 :: base64

text \<open>
  The collaborators of \<open>scanReceipt\<close> that are not code of this repository: the generative
  model (\<open>generateContent\<close> followed by \<open>response.text()\<close>; \<open>None\<close> when the call throws) and
  the built-ins of the runtime (\<open>JSON.parse\<close>, \<open>None\<close> for a \<open>SyntaxError\<close>; the conversion
  of a string to a number; the string an array or object converts to; \<open>new Date(v)\<close>).
\<close>

record scan_env =
  generateContent :: "inlineData \<Rightarrow> string \<Rightarrow> string option"
  JSON_parse :: "string \<Rightarrow> json option"
  StringToNumber :: "string \<Rightarrow> jsnum"
  ToPrimitive :: "json \<Rightarrow> string"
  new_Date :: "json \<Rightarrow> date_value"

text \<open>
  A property read \<open>parsed.k\<close>: the member of an object, \<open>undefined\<close> (\<open>None\<close>) where there is
  none and on numbers, strings, booleans and arrays (none of the five names read is a
  property of those); on \<open>null\<close> the read throws.
\<close>

fun get_prop :: "json \<Rightarrow> string \<Rightarrow> error + json option" where
  "get_prop JNull k = Inl TypeError"
| "get_prop (JObj kvs) k = Inr (map_of kvs k)"
| "get_prop v k = Inr None"

text \<open>\<open>Number(v)\<close>.\<close>

fun js_Number :: "scan_env \<Rightarrow> json option \<Rightarrow> jsnum" where
  "js_Number env None = NaN"
| "js_Number env (Some JNull) = Num 0"
| "js_Number env (Some (JBool b)) = Num (if b then 1 else 0)"
| "js_Number env (Some (JNum r)) = Num r"
| "js_Number env (Some (JStr s)) = StringToNumber env s"
| "js_Number env (Some v) = StringToNumber env (ToPrimitive env v)"

text \<open>The truth value of \<open>v\<close> in \<open>v ? a : b\<close>.\<close>

fun js_truthy :: "json option \<Rightarrow> bool" where
  "js_truthy None = False"
| "js_truthy (Some JNull) = False"
| "js_truthy (Some (JBool b)) = b"
| "js_truthy (Some (JNum r)) = (r \<noteq> 0)"
| "js_truthy (Some (JStr s)) = (s \<noteq> [])"
| "js_truthy (Some v) = True"

text \<open>\<open>v ?? dflt\<close>: the default for \<open>undefined\<close> and \<open>null\<close> only.\<close>

fun nullish :: "json option \<Rightarrow> json \<Rightarrow> json" where
  "nullish None dflt = dflt"
| "nullish (Some JNull) dflt = dflt"
| "nullish (Some v) dflt = v"

subsection \<open>The operation\<close>

text \<open>
  \<open>.replace(/```(?:json)?/g, "")\<close>: every three backticks, with a \<open>json\<close> right after them
  if there is one, are removed, from left to right.
\<close>

fun strip_fences :: "string \<Rightarrow> string" where
  "strip_fences [] = []"
| "strip_fences (c # cs) =
     (if take 3 (c # cs) = ''```'' then
        (if take 4 (drop 2 cs) = ''json'' then strip_fences (drop 6 cs)
         else strip_fences (drop 2 cs))
      else c # strip_fences cs)"

definition prompt :: string where
  \<open>prompt = concat
     [''\<newline>'',
      ''You are a financial assistant for an expense-tracking app.\<newline>'',
      ''\<newline>'',
      ''Extract receipt data.\<newline>'',
      ''\<newline>'',
      ''Rules:\<newline>'',
      ''- Currency is INR unless stated\<newline>'',
      ''- Date format: YYYY-MM-DD\<newline>'',
      ''- Category must be one of:\<newline>'',
      ''  housing, transportation, groceries, utilities, entertainment,\<newline>'',
      ''  food, shopping, healthcare, education, personal, travel,\<newline>'',
      ''  insurance, gifts, bills, other-expense\<newline>'',
      ''- If unsure, use "other-expense"\<newline>'',
      ''- Return STRICT JSON only\<newline>'',
      ''\<newline>'',
      ''Schema:\<newline>'',
      ''{\<newline>'',
      ''  "amount": number,\<newline>'',
      ''  "date": "YYYY-MM-DD",\<newline>'',
      ''  "description": "string",\<newline>'',
      ''  "merchantName": "string",\<newline>'',
      ''  "category": "string"\<newline>'',
      ''}\<newline>'',
      ''\<newline>'',
      ''If not a receipt, return {}.\<newline>'']\<close>

text \<open>The vocabulary the prompt lists.\<close>

definition categories :: "string list" where
  "categories =
     [''housing'', ''transportation'', ''groceries'', ''utilities'', ''entertainment'',
      ''food'', ''shopping'', ''healthcare'', ''education'', ''personal'', ''travel'',
      ''insurance'', ''gifts'', ''bills'', ''other-expense'']"

record receipt =
  receipt_amount :: jsnum
  receipt_date :: "date_value option"
  receipt_description :: json
  receipt_merchantName :: json
  receipt_category :: json

datatype scan_result = EmptyResult | Receipt receipt

text \<open>
  The object literal the operation returns for a parsed response. Its first property read
  throws when the response is \<open>null\<close>.
\<close>

definition receipt_of :: "scan_env \<Rightarrow> json \<Rightarrow> error + receipt" where
  "receipt_of env parsed =
     (case get_prop parsed ''amount'' of
        Inl e \<Rightarrow> Inl e
      | Inr p_amount \<Rightarrow>
     (case get_prop parsed ''date'' of
        Inl e \<Rightarrow> Inl e
      | Inr p_date \<Rightarrow>
     (case get_prop parsed ''description'' of
        Inl e \<Rightarrow> Inl e
      | Inr p_description \<Rightarrow>
     (case get_prop parsed ''merchantName'' of
        Inl e \<Rightarrow> Inl e
      | Inr p_merchantName \<Rightarrow>
     (case get_prop parsed ''category'' of
        Inl e \<Rightarrow> Inl e
      | Inr p_category \<Rightarrow>
          Inr \<lparr>receipt_amount = js_Number env p_amount,
               receipt_date =
                 (case p_date of
                    None \<Rightarrow> None
                  | Some v \<Rightarrow> if js_truthy p_date then Some (new_Date env v) else None),
               receipt_description = nullish p_description (JStr []),
               receipt_merchantName = nullish p_merchantName (JStr []),
               receipt_category = nullish p_category (JStr ''other-expense'')\<rparr>)))))"

text \<open>
  \<open>scanReceipt(file)\<close>. The result is the list of requests sent to the generative model
  and either the error thrown or the value returned. Whatever is thrown inside the \<open>try\<close>
  is caught and replaced by the error \<open>"Failed to scan receipt"\<close>.
\<close>

definition scanReceipt ::
  "scan_env \<Rightarrow> upload \<Rightarrow> (inlineData \<times> string) list \<times> (error + scan_result)" where
  "scanReceipt env f =
     (let base64 = Base64 (bytes f);
          req = \<lparr>mimeType = (if file_type f = [] then ''image/jpeg'' else file_type f),
                 data64 = base64\<rparr>
      in case generateContent env req prompt of
           None \<Rightarrow> ([(req, prompt)], Inl (Error ''Failed to scan receipt''))
         | Some text \<Rightarrow>
             let raw = js_trim (strip_fences text)
             in if raw = [] \<or> raw = ''{}'' then ([(req, prompt)], Inr EmptyResult)
                else
                  (case JSON_parse env raw of
                     None \<Rightarrow> ([(req, prompt)], Inl (Error ''Failed to scan receipt''))
                   | Some parsed \<Rightarrow>
                       (case receipt_of env parsed of
                          Inl e \<Rightarrow> ([(req, prompt)], Inl (Error ''Failed to scan receipt''))
                        | Inr r \<Rightarrow> ([(req, prompt)], Inr (Receipt r)))))"

section \<open>Concrete runs\<close>

text \<open>
  A small store for the runs below: two users, an account each, no transaction yet.
\<close>

definition alice :: user where
  "alice = \<lparr>user_id = ''u1'', clerkUserId = ''clerk_alice'', email = ''alice@example.com'',
            name = ''Alice A'', imageUrl = ''''\<rparr>"

definition bob :: user where
  "bob = \<lparr>user_id = ''u2'', clerkUserId = ''clerk_bob'', email = ''bob@example.com'',
          name = ''Bob B'', imageUrl = ''''\<rparr>"

definition store0 :: db where
  "store0 = \<lparr>users = [alice, bob],
              accounts = [''account-123'' \<mapsto> \<lparr>account_userId = ''u1'', balance = 500\<rparr>,
                          ''account-456'' \<mapsto> \<lparr>account_userId = ''u2'', balance = 80\<rparr>],
              transactions = Map.empty\<rparr>"

definition jan15 :: jsdate where
  "jan15 = \<lparr>year = 2024, month = 0, day = 15, time = 0\<rparr>"

text \<open>The transaction of the README's usage example, with the type and amount left open.\<close>

definition groceries :: "TransactionType \<Rightarrow> real \<Rightarrow> transaction_data" where
  "groceries t a =
     \<lparr>type = t, amount = a, date = jan15, description = ''Grocery shopping'',
      category = ''groceries'', accountId = ''account-123'', isRecurring = False,
      recurringInterval = None\<rparr>"

text \<open>The row \<open>createTransaction\<close> stores for it under the key \<open>t1\<close>, for user \<open>u1\<close>.\<close>

definition groceries_row :: "TransactionType \<Rightarrow> real \<Rightarrow> transaction" where
  "groceries_row t a =
     \<lparr>type = t, amount = a, date = jan15, description = ''Grocery shopping'',
      category = ''groceries'', accountId = ''account-123'', isRecurring = False,
      recurringInterval = None, transaction_id = ''t1'', transaction_userId = ''u1'',
      nextRecurringDate = None\<rparr>"

text \<open>
  Stand-ins for the collaborators of \<open>scanReceipt\<close>: a model that answers every request
  with the text \<open>reply\<close>, and the answers of the runtime's built-ins on the values these
  runs reach (\<open>JSON.parse\<close> of the six response texts below, a \<open>SyntaxError\<close> on the texts
  of the runs that are not JSON; \<open>Number("12.50")\<close>; \<open>new Date("2024-01-15")\<close>).
\<close>

definition response_zzz :: string where
  \<open>response_zzz = ''{"amount":"12.50","date":"2024-01-15","category":"zzz"}''\<close>

definition response_refund :: string where
  \<open>response_refund = ''{"amount":-12.5,"category":null}''\<close>

definition response_cafe :: string where
  \<open>response_cafe =
     ''{"amount":42,"date":"2024-01-15","merchantName":"Cafe","category":"food"}''\<close>

definition response_spaced :: string where
  \<open>response_spaced = ''{ }''\<close>

definition response_null :: string where
  "response_null = ''null''"

definition response_list :: string where
  "response_list = ''[]''"

definition canned_env :: "string \<Rightarrow> scan_env" where
  "canned_env reply =
     \<lparr>generateContent = (\<lambda>req p. Some reply),
      JSON_parse = (\<lambda>t.
        if t = response_zzz then
          Some (JObj [(''amount'', JStr ''12.50''), (''date'', JStr ''2024-01-15''),
                      (''category'', JStr ''zzz'')])
        else if t = response_refund then
          Some (JObj [(''amount'', JNum (- 12.5)), (''category'', JNull)])
        else if t = response_cafe then
          Some (JObj [(''amount'', JNum 42), (''date'', JStr ''2024-01-15''),
                      (''merchantName'', JStr ''Cafe''), (''category'', JStr ''food'')])
        else if t = response_spaced then Some (JObj [])
        else if t = response_null then Some JNull
        else if t = response_list then Some (JArr [])
        else None),
      StringToNumber = (\<lambda>t. if t = ''12.50'' then Num 12.5 else NaN),
      ToPrimitive = (\<lambda>v. ''[object Object]''),
      new_Date = (\<lambda>v. if v = JStr ''2024-01-15'' then ValidDate jan15 else InvalidDate)\<rparr>"

definition photo :: upload where
  "photo = \<lparr>bytes = [255, 216, 255, 224], file_type = ''image/jpeg''\<rparr>"

text \<open>An upload of 5 MB and one byte.\<close>

definition big_photo :: upload where
  "big_photo = \<lparr>bytes = replicate (5 * 1024 * 1024 + 1) 0, file_type = ''image/png''\<rparr>"


text \<open>The store after the README's transaction (an expense of 50) has been created.\<close>

definition store1 :: db where
  "store1 = fst (createTransaction (Some ''clerk_alice'') Allowed ''t1'' store0
                   (groceries EXPENSE 50))"

text \<open>The store after that transaction has been updated to an income of 50.\<close>

definition store_after_update :: db where
  "store_after_update =
     fst (updateTransaction (Some ''clerk_alice'') store1 ''t1'' (groceries INCOME 50))"




section \<open>Properties of the recurrence computation\<close>

lemma days_in_month_bounds: "28 \<le> days_in_month y m \<and> days_in_month y m \<le> 31"
  by (simp add: days_in_month_def)

lemma make_day_fits:
  assumes "m < 12" and "d \<le> days_in_month y m"
  shows "make_day y m d = (y, m, d)"
  using assms by (subst make_day.simps) (simp add: Let_def)

lemma make_day_december: "make_day y 12 d = make_day (y + 1) 0 d"
  by (subst make_day.simps, subst (2) make_day.simps) (simp add: Let_def)

lemma make_day_rolls_over:
  assumes "m < 11" and "days_in_month y m < d" and "d \<le> 31"
  shows "make_day y m d = (y, m + 1, d - days_in_month y m)"
proof -
  have small: "d - days_in_month y m \<le> days_in_month y (m + 1)"
    using assms(3) days_in_month_bounds [of y m] days_in_month_bounds [of y "m + 1"] by linarith
  have "make_day y m d = make_day y (m + 1) (d - days_in_month y m)"
    using assms(1,2) by (subst make_day.simps) (simp add: Let_def)
  also have "\<dots> = (y, m + 1, d - days_in_month y m)"
    using assms(1) small by (intro make_day_fits) simp_all
  finally show ?thesis .
qed

text \<open>
  Claim C4, as the code has it. For a valid date, \<open>MONTHLY\<close> moves to the next calendar
  month (January of the next year after December) and keeps the day of the month when
  that month has it; otherwise nothing is clamped: the days beyond the end of that month
  run on into the month after it. \<open>YEARLY\<close> moves to the same month and day of the next
  year; 29 February becomes 1 March when the next year is not a leap year.
\<close>

theorem calculateNextRecurringDate_monthly_yearly:
  assumes "valid_date d"
  shows "calculateNextRecurringDate d MONTHLY =
           (let y' = (if month d = 11 then year d + 1 else year d);
                m' = (if month d = 11 then 0 else month d + 1);
                n = days_in_month y' m'
            in if day d \<le> n then d\<lparr>year := y', month := m'\<rparr>
               else d\<lparr>year := y', month := m' + 1, day := day d - n\<rparr>) \<and>
         calculateNextRecurringDate d YEARLY =
           (if month d = 1 \<and> day d = 29 \<and> \<not> leap_year (year d + 1)
            then d\<lparr>year := year d + 1, month := 2, day := 1\<rparr>
            else d\<lparr>year := year d + 1\<rparr>)"
proof
  show "calculateNextRecurringDate d MONTHLY =
           (let y' = (if month d = 11 then year d + 1 else year d);
                m' = (if month d = 11 then 0 else month d + 1);
                n = days_in_month y' m'
            in if day d \<le> n then d\<lparr>year := y', month := m'\<rparr>
               else d\<lparr>year := y', month := m' + 1, day := day d - n\<rparr>)"
  proof -
    have m: "month d < 12" and d31: "day d \<le> 31"
      using assms days_in_month_bounds [of "year d" "month d"] by (auto simp: valid_date_def)
    show ?thesis
    proof (cases "month d = 11")
      case True
      have "days_in_month (year d + 1) 0 = 31" by (simp add: days_in_month_def)
      with d31 have "make_day (year d + 1) 0 (day d) = (year d + 1, 0, day d)"
        by (intro make_day_fits) simp_all
      with True show ?thesis
        by (simp add: calculateNextRecurringDate_def setMonth_def getMonth_def make_day_december
            days_in_month_def d31)
    next
      case False
      with m have lt: "month d + 1 < 12" by simp
      show ?thesis
      proof (cases "day d \<le> days_in_month (year d) (month d + 1)")
        case True
        with lt have "make_day (year d) (month d + 1) (day d) = (year d, month d + 1, day d)"
          by (intro make_day_fits)
        with False True show ?thesis
          by (simp add: calculateNextRecurringDate_def setMonth_def getMonth_def)
      next
        case over: False
        have "month d + 1 \<noteq> 11"
        proof
          assume "month d + 1 = 11"
          then have "days_in_month (year d) (month d + 1) = 31" by (simp add: days_in_month_def)
          with over d31 show False by simp
        qed
        with lt have "month d + 1 < 11" by simp
        with over d31 have "make_day (year d) (month d + 1) (day d) =
            (year d, month d + 1 + 1, day d - days_in_month (year d) (month d + 1))"
          by (intro make_day_rolls_over) simp_all
        with False over show ?thesis
          by (simp add: calculateNextRecurringDate_def setMonth_def getMonth_def)
      qed
    qed
  qed
next
  show "calculateNextRecurringDate d YEARLY =
           (if month d = 1 \<and> day d = 29 \<and> \<not> leap_year (year d + 1)
            then d\<lparr>year := year d + 1, month := 2, day := 1\<rparr>
            else d\<lparr>year := year d + 1\<rparr>)"
  proof -
    have m: "month d < 12" and dd: "day d \<le> days_in_month (year d) (month d)"
      using assms by (auto simp: valid_date_def)
    show ?thesis
    proof (cases "month d = 1 \<and> day d = 29 \<and> \<not> leap_year (year d + 1)")
      case True
      then have "make_day (year d + 1) (month d) (day d) =
          (year d + 1, month d + 1, day d - days_in_month (year d + 1) (month d))"
        by (intro make_day_rolls_over) (simp_all add: days_in_month_def)
      with True show ?thesis
        by (simp add: calculateNextRecurringDate_def setFullYear_def getFullYear_def days_in_month_def)
    next
      case False
      have "day d \<le> days_in_month (year d + 1) (month d)"
        using False dd by (auto simp: days_in_month_def split: if_splits)
      with m have "make_day (year d + 1) (month d) (day d) = (year d + 1, month d, day d)"
        by (intro make_day_fits)
      with False show ?thesis
        by (simp add: calculateNextRecurringDate_def setFullYear_def getFullYear_def)
    qed
  qed
qed

text \<open>
  The theorem at 31 January 2024 (a leap year): one month later is 2 March 2024, one year
  later 31 January 2025.
\<close>

theorem calculateNextRecurringDate_monthly_yearly_witness:
  "valid_date \<lparr>year = 2024, month = 0, day = 31, time = 0\<rparr> \<and>
   calculateNextRecurringDate \<lparr>year = 2024, month = 0, day = 31, time = 0\<rparr> MONTHLY
     = \<lparr>year = 2024, month = 2, day = 2, time = 0\<rparr> \<and>
   calculateNextRecurringDate \<lparr>year = 2024, month = 0, day = 31, time = 0\<rparr> YEARLY
     = \<lparr>year = 2025, month = 0, day = 31, time = 0\<rparr>"
proof -
  have v: "valid_date \<lparr>year = 2024, month = 0, day = 31, time = 0\<rparr>"
    by (simp add: valid_date_def days_in_month_def)
  from calculateNextRecurringDate_monthly_yearly [OF v] v show ?thesis
    by (simp add: days_in_month_def leap_year_def)
qed

text \<open>
  Against claim C4 as it is worded: one month after 31 January 2023 (not a leap year) is
  3 March 2023, not 28 February; one year after 29 February 2024 is 1 March 2025, not
  28 February.
\<close>

theorem calculateNextRecurringDate_does_not_clamp:
  "calculateNextRecurringDate \<lparr>year = 2023, month = 0, day = 31, time = 0\<rparr> MONTHLY
     = \<lparr>year = 2023, month = 2, day = 3, time = 0\<rparr> \<and>
   calculateNextRecurringDate \<lparr>year = 2023, month = 0, day = 31, time = 0\<rparr> MONTHLY
     \<noteq> \<lparr>year = 2023, month = 1, day = 28, time = 0\<rparr> \<and>
   calculateNextRecurringDate \<lparr>year = 2024, month = 1, day = 29, time = 0\<rparr> YEARLY
     = \<lparr>year = 2025, month = 2, day = 1, time = 0\<rparr>"
  by (simp add: calculateNextRecurringDate_def setMonth_def getMonth_def setFullYear_def
      getFullYear_def days_in_month_def leap_year_def)

section \<open>Properties of the balance\<close>

lemma signed_eq: "signed t a = (if t = EXPENSE then - a else a)"
  by (cases t) (simp_all add: signed_def)

lemma createTransaction_Inr:
  assumes "createTransaction auth verdict newId s data = (s', Inr t)"
  shows "\<exists>userId user a.
           auth = Some userId \<and> verdict = Allowed \<and> user_findUnique s userId = Some user \<and>
           accounts s (accountId data) = Some a \<and> account_userId a = user_id user \<and>
           transactions s newId = None \<and>
           transaction_id t = newId \<and> transaction_userId t = user_id user \<and>
           nextRecurringDate t = next_recurring data \<and>
           transaction_data.truncate t = data \<and>
           s' = s\<lparr>transactions := (transactions s)(newId \<mapsto> t),
                  accounts := (accounts s)(accountId data \<mapsto>
                    a\<lparr>balance := balance a + signed (type data) (amount data)\<rparr>)\<rparr>"
proof -
  from assms obtain userId where auth: "auth = Some userId"
    by (cases auth) (simp_all add: createTransaction_def)
  from assms auth have verdict: "verdict = Allowed"
    by (cases verdict) (simp_all add: createTransaction_def)
  from assms auth verdict obtain user where user: "user_findUnique s userId = Some user"
    by (cases "user_findUnique s userId") (simp_all add: createTransaction_def)
  from assms auth verdict user obtain a
    where found: "account_findUnique s (accountId data) (user_id user) = Some a"
    by (cases "account_findUnique s (accountId data) (user_id user)")
      (simp_all add: createTransaction_def)
  from found have a: "accounts s (accountId data) = Some a"
    and owner: "account_userId a = user_id user"
    by (auto simp: account_findUnique_def split: option.splits if_splits)
  from assms auth verdict user found have fresh: "transactions s newId = None"
    by (cases "transactions s newId")
      (simp_all add: createTransaction_def db_transaction_def transaction_create_def Let_def)
  define row where
    "row = \<lparr>type = type data, amount = amount data, date = date data,
          description = description data, category = category data,
          accountId = accountId data, isRecurring = isRecurring data,
          recurringInterval = recurringInterval data,
          transaction_id = newId, transaction_userId = user_id user,
          nextRecurringDate = next_recurring data\<rparr>"
  have "createTransaction auth verdict newId s data =
      (s\<lparr>transactions := (transactions s)(newId \<mapsto> row),
         accounts := (accounts s)(accountId data \<mapsto>
           a\<lparr>balance := balance a + signed (type data) (amount data)\<rparr>)\<rparr>, Inr row)"
    using auth verdict user found a fresh
    by (simp add: createTransaction_def db_transaction_def transaction_create_def
        account_update_def Let_def signed_eq row_def)
  with assms have t: "t = row"
    and s': "s' = s\<lparr>transactions := (transactions s)(newId \<mapsto> t),
                  accounts := (accounts s)(accountId data \<mapsto>
                    a\<lparr>balance := balance a + signed (type data) (amount data)\<rparr>)\<rparr>"
    by auto
  from t have "transaction_id t = newId" "transaction_userId t = user_id user"
    "nextRecurringDate t = next_recurring data" "transaction_data.truncate t = data"
    by (simp_all add: row_def transaction_data.truncate_def)
  with auth verdict user a owner fresh s' show ?thesis
    by blast
qed

lemma createTransaction_Inl:
  assumes "createTransaction auth verdict newId s data = (s', Inl e)"
  shows "s' = s"
  using assms
  by (auto simp: createTransaction_def db_transaction_def Let_def
      split: option.splits decision.splits sum.splits prod.splits)

lemma updateTransaction_Inl:
  assumes "updateTransaction auth s tid data = (s', Inl e)"
  shows "s' = s"
  using assms
  by (auto simp: updateTransaction_def db_transaction_def Let_def
      split: option.splits sum.splits prod.splits)

lemma updateTransaction_Inr:
  assumes "updateTransaction auth s tid data = (s', Inr t)"
  shows "\<exists>userId user original a.
           auth = Some userId \<and> user_findUnique s userId = Some user \<and>
           transactions s tid = Some original \<and> transaction_userId original = user_id user \<and>
           accounts s (accountId data) = Some a \<and>
           transaction_id t = transaction_id original \<and>
           transaction_userId t = transaction_userId original \<and>
           type t = type data \<and> amount t = amount data \<and> date t = date data \<and>
           accountId t = accountId data \<and> isRecurring t = isRecurring data \<and>
           nextRecurringDate t = next_recurring data \<and>
           s' = s\<lparr>transactions := (transactions s)(tid \<mapsto> t),
                  accounts := (accounts s)(accountId data \<mapsto>
                    a\<lparr>balance := balance a +
                      (signed (type data) (amount data)
                       - signed (type original) (amount original))\<rparr>)\<rparr>"
proof -
  from assms obtain userId where auth: "auth = Some userId"
    by (cases auth) (simp_all add: updateTransaction_def)
  from assms auth obtain user where user: "user_findUnique s userId = Some user"
    by (cases "user_findUnique s userId") (simp_all add: updateTransaction_def)
  from assms auth user obtain original
    where found: "transaction_findUnique s tid (user_id user) = Some original"
    by (cases "transaction_findUnique s tid (user_id user)") (simp_all add: updateTransaction_def)
  from found have orig: "transactions s tid = Some original"
    and owner: "transaction_userId original = user_id user"
    by (auto simp: transaction_findUnique_def split: option.splits if_splits)
  from assms auth user found obtain a where a: "accounts s (accountId data) = Some a"
    by (cases "accounts s (accountId data)")
      (simp_all add: updateTransaction_def db_transaction_def transaction_update_def
        account_update_def Let_def)
  define row where
    "row = original\<lparr>type := type data, amount := amount data, date := date data,
              description := description data, category := category data,
              accountId := accountId data, isRecurring := isRecurring data,
              recurringInterval :=
                (case recurringInterval data of
                   None \<Rightarrow> recurringInterval original
                 | Some i \<Rightarrow> Some i),
              nextRecurringDate := next_recurring data\<rparr>"
  have "updateTransaction auth s tid data =
      (s\<lparr>transactions := (transactions s)(tid \<mapsto> row),
         accounts := (accounts s)(accountId data \<mapsto>
           a\<lparr>balance := balance a +
             (signed (type data) (amount data)
              - signed (type original) (amount original))\<rparr>)\<rparr>, Inr row)"
    using auth user found a
    by (simp add: updateTransaction_def db_transaction_def transaction_update_def
        account_update_def Let_def signed_eq row_def)
  with assms have t: "t = row"
    and s': "s' = s\<lparr>transactions := (transactions s)(tid \<mapsto> t),
                  accounts := (accounts s)(accountId data \<mapsto>
                    a\<lparr>balance := balance a +
                      (signed (type data) (amount data)
                       - signed (type original) (amount original))\<rparr>)\<rparr>"
    by auto
  from t have "transaction_id t = transaction_id original"
    "transaction_userId t = transaction_userId original"
    "type t = type data" "amount t = amount data" "date t = date data"
    "accountId t = accountId data" "isRecurring t = isRecurring data"
    "nextRecurringDate t = next_recurring data"
    by (simp_all add: row_def)
  with auth user orig owner a s' show ?thesis
    by blast
qed

text \<open>Both operations do succeed where their checks pass.\<close>

lemma createTransaction_succeeds:
  assumes "user_findUnique s userId = Some user"
    and "accounts s (accountId data) = Some a" and "account_userId a = user_id user"
    and "transactions s newId = None"
  shows "\<exists>s' t. createTransaction (Some userId) Allowed newId s data = (s', Inr t)"
  using assms
  by (simp add: createTransaction_def account_findUnique_def db_transaction_def
      transaction_create_def account_update_def Let_def)

lemma updateTransaction_succeeds:
  assumes "user_findUnique s userId = Some user"
    and "transactions s tid = Some original" and "transaction_userId original = user_id user"
    and "accounts s (accountId data) = Some a"
  shows "\<exists>s' t. updateTransaction (Some userId) s tid data = (s', Inr t)"
  using assms
  by (simp add: updateTransaction_def transaction_findUnique_def db_transaction_def
      transaction_update_def account_update_def Let_def)


text \<open>The theorem at a run that succeeds: an income of 120 on a balance of 500 gives 620.\<close>

lemmas run_defs =
  createTransaction_def updateTransaction_def user_findUnique_def account_findUnique_def
  transaction_findUnique_def transaction_create_def transaction_update_def account_update_def
  db_transaction_def next_recurring_def store0_def alice_def bob_def groceries_def
  groceries_row_def jan15_def Let_def

lemma store1_eq:
  "store1 = \<lparr>users = [alice, bob],
              accounts = [''account-123'' \<mapsto> \<lparr>account_userId = ''u1'', balance = 500\<rparr>,
                          ''account-456'' \<mapsto> \<lparr>account_userId = ''u2'', balance = 80\<rparr>,
                          ''account-123'' \<mapsto> \<lparr>account_userId = ''u1'', balance = 450\<rparr>],
              transactions = [''t1'' \<mapsto> groceries_row EXPENSE 50]\<rparr>"
  by (simp add: store1_def run_defs)




text \<open>
  Claim C9. An update that carries the type and the amount the stored transaction already
  has leaves the balance of every account as it was, whether the update succeeds or
  fails.
\<close>

theorem updateTransaction_same_amount:
  assumes "transactions s tid = Some original"
    and "type data = type original" and "amount data = amount original"
  shows "accounts (fst (updateTransaction auth s tid data)) = accounts s"
proof (cases "updateTransaction auth s tid data")
  case (Pair s' r)
  show ?thesis
  proof (cases r)
    case (Inl e)
    with Pair have "s' = s" by (simp add: updateTransaction_Inl)
    with Pair show ?thesis by simp
  next
    case (Inr t)
    with Pair have run: "updateTransaction auth s tid data = (s', Inr t)" by simp
    from updateTransaction_Inr [OF run] obtain original' a where
      o: "transactions s tid = Some original'" and a: "accounts s (accountId data) = Some a"
      and s': "s' = s\<lparr>transactions := (transactions s)(tid \<mapsto> t),
             accounts := (accounts s)(accountId data \<mapsto>
               a\<lparr>balance := balance a +
                 (signed (type data) (amount data)
                  - signed (type original') (amount original'))\<rparr>)\<rparr>"
      by blast
    from o assms(1) have "original' = original" by simp
    with s' assms(2,3) have "accounts s' = (accounts s)(accountId data \<mapsto> a)" by simp
    with a have "accounts s' = accounts s" by (simp add: map_upd_triv)
    with Pair show ?thesis by simp
  qed
qed

text \<open>
  The theorem at an update that succeeds: the category of the stored expense changes,
  its type and amount do not, and the accounts are the same afterwards.
\<close>

theorem updateTransaction_same_amount_witness:
  "snd (updateTransaction (Some ''clerk_alice'') store1 ''t1''
          ((groceries EXPENSE 50)\<lparr>category := ''food''\<rparr>))
     = Inr ((groceries_row EXPENSE 50)\<lparr>category := ''food''\<rparr>) \<and>
   accounts (fst (updateTransaction (Some ''clerk_alice'') store1 ''t1''
                    ((groceries EXPENSE 50)\<lparr>category := ''food''\<rparr>))) = accounts store1"
proof -
  have "transactions store1 ''t1'' = Some (groceries_row EXPENSE 50)"
    by (simp add: store1_eq)
  from updateTransaction_same_amount [OF this, of "(groceries EXPENSE 50)\<lparr>category := ''food''\<rparr>"
      "Some ''clerk_alice''"]
  have "accounts (fst (updateTransaction (Some ''clerk_alice'') store1 ''t1''
                    ((groceries EXPENSE 50)\<lparr>category := ''food''\<rparr>))) = accounts store1"
    by (simp add: groceries_def groceries_row_def)
  moreover have "snd (updateTransaction (Some ''clerk_alice'') store1 ''t1''
          ((groceries EXPENSE 50)\<lparr>category := ''food''\<rparr>))
     = Inr ((groceries_row EXPENSE 50)\<lparr>category := ''food''\<rparr>)"
    by (simp add: store1_eq run_defs)
  ultimately show ?thesis by simp
qed

section \<open>All or nothing\<close>

text \<open>
  Claim C3, as the code has it. Both operations write the transaction row and the balance
  inside one database transaction: a run that ends in an error, whatever the error,
  leaves the store exactly as it was, and a run that succeeds has written both the row
  and the balance. \<open>createTransaction\<close> fails with \<open>Account not found\<close>, before any write,
  when the account does not exist or belongs to another user; \<open>updateTransaction\<close> fails,
  with its row write rolled back, when the account \<open>data.accountId\<close> names does not exist.
  Neither operation looks at the sign of the amount.
\<close>

theorem balance_mutation_all_or_nothing:
  "(createTransaction auth verdict newId s data = (s1, Inl e1) \<longrightarrow> s1 = s) \<and>
   (createTransaction auth verdict newId s data = (s1, Inr t1) \<longrightarrow>
      transactions s1 = (transactions s)(newId \<mapsto> t1) \<and>
      (\<exists>a. accounts s (accountId data) = Some a \<and>
           accounts s1 = (accounts s)(accountId data \<mapsto>
             a\<lparr>balance := balance a + signed (type data) (amount data)\<rparr>))) \<and>
   (updateTransaction auth s tid data = (s2, Inl e2) \<longrightarrow> s2 = s) \<and>
   (updateTransaction auth s tid data = (s2, Inr t2) \<longrightarrow>
      transactions s2 = (transactions s)(tid \<mapsto> t2) \<and>
      (\<exists>original a. transactions s tid = Some original \<and>
           accounts s (accountId data) = Some a \<and>
           accounts s2 = (accounts s)(accountId data \<mapsto>
             a\<lparr>balance := balance a +
               (signed (type data) (amount data)
                - signed (type original) (amount original))\<rparr>))) \<and>
   (auth = Some userId \<and> verdict = Allowed \<and> user_findUnique s userId = Some user \<and>
    (accounts s (accountId data) = None \<or>
     (\<exists>a. accounts s (accountId data) = Some a \<and> account_userId a \<noteq> user_id user)) \<longrightarrow>
      createTransaction auth verdict newId s data = (s, Inl (Error ''Account not found''))) \<and>
   (auth = Some userId \<and> user_findUnique s userId = Some user \<and>
    transaction_findUnique s tid (user_id user) = Some original \<and>
    accounts s (accountId data) = None \<longrightarrow>
      updateTransaction auth s tid data = (s, Inl (DbError RecordNotFound)))"
proof (intro conjI impI)
  assume "createTransaction auth verdict newId s data = (s1, Inl e1)"
  then show "s1 = s" by (rule createTransaction_Inl)
next
  assume run: "createTransaction auth verdict newId s data = (s1, Inr t1)"
  from createTransaction_Inr [OF run] obtain a where
    a: "accounts s (accountId data) = Some a"
    and s1: "s1 = s\<lparr>transactions := (transactions s)(newId \<mapsto> t1),
            accounts := (accounts s)(accountId data \<mapsto>
              a\<lparr>balance := balance a + signed (type data) (amount data)\<rparr>)\<rparr>"
    by blast
  from s1 show "transactions s1 = (transactions s)(newId \<mapsto> t1)" by simp
  from a s1 show "\<exists>a. accounts s (accountId data) = Some a \<and>
           accounts s1 = (accounts s)(accountId data \<mapsto>
             a\<lparr>balance := balance a + signed (type data) (amount data)\<rparr>)" by simp
next
  assume "updateTransaction auth s tid data = (s2, Inl e2)"
  then show "s2 = s" by (rule updateTransaction_Inl)
next
  assume run: "updateTransaction auth s tid data = (s2, Inr t2)"
  from updateTransaction_Inr [OF run] obtain original a where
    o: "transactions s tid = Some original" and a: "accounts s (accountId data) = Some a"
    and s2: "s2 = s\<lparr>transactions := (transactions s)(tid \<mapsto> t2),
            accounts := (accounts s)(accountId data \<mapsto>
              a\<lparr>balance := balance a +
                (signed (type data) (amount data)
                 - signed (type original) (amount original))\<rparr>)\<rparr>"
    by blast
  from s2 show "transactions s2 = (transactions s)(tid \<mapsto> t2)" by simp
  from o a s2 show "\<exists>original a. transactions s tid = Some original \<and>
           accounts s (accountId data) = Some a \<and>
           accounts s2 = (accounts s)(accountId data \<mapsto>
             a\<lparr>balance := balance a +
               (signed (type data) (amount data)
                - signed (type original) (amount original))\<rparr>)" by simp
next
  assume "auth = Some userId \<and> verdict = Allowed \<and> user_findUnique s userId = Some user \<and>
    (accounts s (accountId data) = None \<or>
     (\<exists>a. accounts s (accountId data) = Some a \<and> account_userId a \<noteq> user_id user))"
  then show "createTransaction auth verdict newId s data = (s, Inl (Error ''Account not found''))"
    by (auto simp: createTransaction_def account_findUnique_def)
next
  assume "auth = Some userId \<and> user_findUnique s userId = Some user \<and>
    transaction_findUnique s tid (user_id user) = Some original \<and>
    accounts s (accountId data) = None"
  then show "updateTransaction auth s tid data = (s, Inl (DbError RecordNotFound))"
    by (simp add: updateTransaction_def db_transaction_def transaction_update_def
        account_update_def Let_def)
qed

text \<open>
  The theorem at concrete runs: a create on another user's account and on a missing
  account (both refused, store unchanged), a create that succeeds, an update that names a
  missing account (refused after the row write, store unchanged), an update that
  succeeds, a create by nobody and an update of another user's transaction (both
  refused, store unchanged).
\<close>

theorem balance_mutation_all_or_nothing_witness:
  "createTransaction (Some ''clerk_alice'') Allowed ''t1'' store0
       ((groceries EXPENSE 50)\<lparr>accountId := ''account-456''\<rparr>)
     = (store0, Inl (Error ''Account not found'')) \<and>
   createTransaction (Some ''clerk_alice'') Allowed ''t1'' store0
       ((groceries EXPENSE 50)\<lparr>accountId := ''no-such-account''\<rparr>)
     = (store0, Inl (Error ''Account not found'')) \<and>
   createTransaction (Some ''clerk_alice'') Allowed ''t1'' store0 (groceries EXPENSE 50)
     = (store1, Inr (groceries_row EXPENSE 50)) \<and>
   transactions store1 = (transactions store0)(''t1'' \<mapsto> groceries_row EXPENSE 50) \<and>
   map_option balance (accounts store1 ''account-123'') = Some 450 \<and>
   updateTransaction (Some ''clerk_alice'') store1 ''t1''
       ((groceries INCOME 50)\<lparr>accountId := ''no-such-account''\<rparr>)
     = (store1, Inl (DbError RecordNotFound)) \<and>
   updateTransaction (Some ''clerk_alice'') store1 ''t1'' (groceries INCOME 50)
     = (store_after_update, Inr (groceries_row INCOME 50)) \<and>
   transactions store_after_update = (transactions store1)(''t1'' \<mapsto> groceries_row INCOME 50) \<and>
   map_option balance (accounts store_after_update ''account-123'') = Some 550 \<and>
   createTransaction None Allowed ''t1'' store0 (groceries EXPENSE 50)
     = (store0, Inl (Error ''Unauthorized'')) \<and>
   updateTransaction (Some ''clerk_bob'') store1 ''t1'' (groceries INCOME 50)
     = (store1, Inl (Error ''Transaction not found''))"
proof -
  let ?foreign = "(groceries EXPENSE 50)\<lparr>accountId := ''account-456''\<rparr>"
  let ?missing = "(groceries EXPENSE 50)\<lparr>accountId := ''no-such-account''\<rparr>"
  let ?moved = "(groceries INCOME 50)\<lparr>accountId := ''no-such-account''\<rparr>"
  have alice: "user_findUnique store0 ''clerk_alice'' = Some alice"
    "user_findUnique store1 ''clerk_alice'' = Some alice"
    by (simp_all add: user_findUnique_def store1_eq store0_def alice_def)
  have foreign: "accounts store0 (accountId ?foreign) = None \<or>
      (\<exists>a. accounts store0 (accountId ?foreign) = Some a \<and> account_userId a \<noteq> user_id alice)"
    by (simp add: store0_def groceries_def alice_def)
  have missing: "accounts store0 (accountId ?missing) = None \<or>
      (\<exists>a. accounts store0 (accountId ?missing) = Some a \<and> account_userId a \<noteq> user_id alice)"
    by (simp add: store0_def groceries_def alice_def)
  note aon = balance_mutation_all_or_nothing
  have c1: "createTransaction (Some ''clerk_alice'') Allowed ''t1'' store0 ?foreign
      = (store0, Inl (Error ''Account not found''))"
    using aon [where auth = "Some ''clerk_alice''" and verdict = Allowed and s = store0
        and data = ?foreign and userId = "''clerk_alice''" and user = alice and newId = "''t1''"]
      alice foreign by blast
  have c2: "createTransaction (Some ''clerk_alice'') Allowed ''t1'' store0 ?missing
      = (store0, Inl (Error ''Account not found''))"
    using aon [where auth = "Some ''clerk_alice''" and verdict = Allowed and s = store0
        and data = ?missing and userId = "''clerk_alice''" and user = alice and newId = "''t1''"]
      alice missing by blast
  have run1: "createTransaction (Some ''clerk_alice'') Allowed ''t1'' store0 (groceries EXPENSE 50)
      = (store1, Inr (groceries_row EXPENSE 50))"
    by (simp add: store1_eq run_defs)
  have c3: "transactions store1 = (transactions store0)(''t1'' \<mapsto> groceries_row EXPENSE 50)"
    using aon [where auth = "Some ''clerk_alice''" and verdict = Allowed and s = store0
        and data = "groceries EXPENSE 50" and newId = "''t1''" and ?s1.0 = store1
        and ?t1.0 = "groceries_row EXPENSE 50"] run1
    by blast
  have c4: "map_option balance (accounts store1 ''account-123'') = Some 450"
    by (simp add: store1_eq)
  have orig: "transaction_findUnique store1 ''t1'' (user_id alice) = Some (groceries_row EXPENSE 50)"
    by (simp add: transaction_findUnique_def store1_eq groceries_row_def alice_def)
  have gone: "accounts store1 (accountId ?moved) = None"
    by (simp add: store1_eq groceries_def)
  have c5: "updateTransaction (Some ''clerk_alice'') store1 ''t1'' ?moved
      = (store1, Inl (DbError RecordNotFound))"
    using aon [where auth = "Some ''clerk_alice''" and s = store1 and tid = "''t1''"
        and data = ?moved and userId = "''clerk_alice''" and user = alice
        and original = "groceries_row EXPENSE 50"]
      alice orig gone by blast
  have run2: "updateTransaction (Some ''clerk_alice'') store1 ''t1'' (groceries INCOME 50)
      = (store_after_update, Inr (groceries_row INCOME 50))"
    by (simp add: store_after_update_def store1_eq run_defs)
  have c6: "transactions store_after_update
      = (transactions store1)(''t1'' \<mapsto> groceries_row INCOME 50)"
    using aon [where auth = "Some ''clerk_alice''" and s = store1 and tid = "''t1''"
        and data = "groceries INCOME 50" and ?s2.0 = store_after_update
        and ?t2.0 = "groceries_row INCOME 50"] run2
    by blast
  have c7: "map_option balance (accounts store_after_update ''account-123'') = Some 550"
    by (simp add: store_after_update_def store1_eq run_defs)
  obtain s3 where run3: "createTransaction None Allowed ''t1'' store0 (groceries EXPENSE 50)
      = (s3, Inl (Error ''Unauthorized''))"
    by (simp add: createTransaction_def)
  with aon [where auth = None and verdict = Allowed and s = store0
      and data = "groceries EXPENSE 50" and newId = "''t1''" and ?s1.0 = s3
      and ?e1.0 = "Error ''Unauthorized''"]
  have "s3 = store0" by blast
  with run3 have c8: "createTransaction None Allowed ''t1'' store0 (groceries EXPENSE 50)
      = (store0, Inl (Error ''Unauthorized''))"
    by simp
  obtain s4 where run4: "updateTransaction (Some ''clerk_bob'') store1 ''t1'' (groceries INCOME 50)
      = (s4, Inl (Error ''Transaction not found''))"
    by (simp add: store1_eq run_defs)
  with aon [where auth = "Some ''clerk_bob''" and s = store1 and tid = "''t1''"
      and data = "groceries INCOME 50" and ?s2.0 = s4
      and ?e2.0 = "Error ''Transaction not found''"]
  have "s4 = store1" by blast
  with run4 have c9: "updateTransaction (Some ''clerk_bob'') store1 ''t1'' (groceries INCOME 50)
      = (store1, Inl (Error ''Transaction not found''))"
    by simp
  from c1 c2 run1 c3 c4 c5 run2 c6 c7 c8 c9 show ?thesis by simp
qed

text \<open>
  Against claim C3 as it is worded: a negative amount is no error. An expense of \<open>-50\<close> is
  stored as it is, and the balance goes from 500 to 550.
\<close>

theorem negative_amount_is_written:
  "amount (groceries EXPENSE (- 50)) < 0 \<and>
   snd (createTransaction (Some ''clerk_alice'') Allowed ''t1'' store0 (groceries EXPENSE (- 50)))
     = Inr (groceries_row EXPENSE (- 50)) \<and>
   transactions
     (fst (createTransaction (Some ''clerk_alice'') Allowed ''t1'' store0
             (groceries EXPENSE (- 50)))) ''t1'' = Some (groceries_row EXPENSE (- 50)) \<and>
   map_option balance (accounts store0 ''account-123'') = Some 500 \<and>
   map_option balance
     (accounts
        (fst (createTransaction (Some ''clerk_alice'') Allowed ''t1'' store0
                (groceries EXPENSE (- 50)))) ''account-123'') = Some 550"
  by (simp add: run_defs)

text \<open>
  \<open>updateTransaction\<close> does not ask whose account \<open>data.accountId\<close> names, as
  \<open>createTransaction\<close> does: the first user moves her transaction to the second user's
  account, and that account's balance goes from 80 to 180.
\<close>

lemma updateTransaction_foreign_account:
  "map_option account_userId (accounts store1 ''account-456'') = Some ''u2'' \<and>
   map_option balance (accounts store1 ''account-456'') = Some 80 \<and>
   snd (updateTransaction (Some ''clerk_alice'') store1 ''t1''
          ((groceries INCOME 50)\<lparr>accountId := ''account-456''\<rparr>))
     = Inr ((groceries_row INCOME 50)\<lparr>accountId := ''account-456''\<rparr>) \<and>
   map_option balance
     (accounts (fst (updateTransaction (Some ''clerk_alice'') store1 ''t1''
                       ((groceries INCOME 50)\<lparr>accountId := ''account-456''\<rparr>)))
        ''account-456'') = Some 180"
  by (simp add: store1_eq run_defs)

section \<open>The next recurring date of a stored transaction\<close>

text \<open>
  Claim C5 at a daily and at a weekly recurring transaction dated 15 January 2024, created
  and updated: the stored \<open>nextRecurringDate\<close> is present and is 15 January 2024 itself,
  which is not strictly after the transaction's date.
\<close>

theorem daily_next_date_is_the_date:
  "map_option nextRecurringDate
     (transactions
        (fst (createTransaction (Some ''clerk_alice'') Allowed ''t1'' store0
                ((groceries EXPENSE 50)\<lparr>isRecurring := True, recurringInterval := Some DAILY\<rparr>)))
        ''t1'') = Some (Some jan15) \<and>
   map_option nextRecurringDate
     (transactions
        (fst (createTransaction (Some ''clerk_alice'') Allowed ''t2'' store0
                ((groceries EXPENSE 50)\<lparr>isRecurring := True, recurringInterval := Some WEEKLY\<rparr>)))
        ''t2'') = Some (Some jan15) \<and>
   map_option nextRecurringDate
     (transactions
        (fst (updateTransaction (Some ''clerk_alice'') store1 ''t1''
                ((groceries EXPENSE 50)\<lparr>isRecurring := True, recurringInterval := Some DAILY\<rparr>)))
        ''t1'') = Some (Some jan15) \<and>
   date ((groceries EXPENSE 50)\<lparr>isRecurring := True, recurringInterval := Some DAILY\<rparr>) = jan15 \<and>
   \<not> date_before jan15 jan15"
  by (simp add: store1_eq run_defs calculateNextRecurringDate_def date_before_def)

section \<open>Properties of \<open>checkUser\<close>\<close>










section \<open>Properties of \<open>scanReceipt\<close>\<close>

lemma strip_fences_plain:
  assumes "CHR 0x60 \<notin> set xs"
  shows "strip_fences (xs @ ys) = xs @ strip_fences ys"
  using assms by (induction xs) auto

lemma strip_fences_opening: "strip_fences (''```json'' @ s) = strip_fences s"
  by simp

lemma strip_fences_closing: "strip_fences ''```'' = []"
  by simp

lemma strip_fences_fenced:
  assumes "CHR 0x60 \<notin> set body"
  shows "strip_fences (''```json'' @ body @ ''```'') = body"
proof -
  have "strip_fences (''```json'' @ body @ ''```'') = strip_fences (body @ ''```'')"
    by (rule strip_fences_opening)
  also have "\<dots> = body @ strip_fences ''```''"
    using assms by (rule strip_fences_plain)
  finally show ?thesis by simp
qed

lemma scanReceipt_calls:
  "fst (scanReceipt env f) =
     [(\<lparr>mimeType = (if file_type f = [] then ''image/jpeg'' else file_type f),
        data64 = Base64 (bytes f)\<rparr>, prompt)]"
  by (simp add: scanReceipt_def Let_def split: option.splits sum.splits)

text \<open>
  Claim C6, as the code has it. The fence markers are removed before anything else: a
  response that is \<open>```json\<close>, a body without backticks and \<open>```\<close> is read as the trimmed
  body. When the stripped and trimmed response is empty or exactly \<open>{}\<close>, the operation
  returns the empty result. When it is anything else and \<open>JSON.parse\<close> rejects it, the
  operation throws the error \<open>Failed to scan receipt\<close>.
\<close>

theorem scanReceipt_empty_or_failed:
  "(CHR 0x60 \<notin> set body \<longrightarrow>
      js_trim (strip_fences (''```json'' @ body @ ''```'')) = js_trim body) \<and>
   (generateContent env
        \<lparr>mimeType = (if file_type f = [] then ''image/jpeg'' else file_type f),
         data64 = Base64 (bytes f)\<rparr> prompt = Some reply \<and>
    (js_trim (strip_fences reply) = [] \<or> js_trim (strip_fences reply) = ''{}'') \<longrightarrow>
      snd (scanReceipt env f) = Inr EmptyResult) \<and>
   (generateContent env
        \<lparr>mimeType = (if file_type f = [] then ''image/jpeg'' else file_type f),
         data64 = Base64 (bytes f)\<rparr> prompt = Some reply \<and>
    js_trim (strip_fences reply) \<noteq> [] \<and> js_trim (strip_fences reply) \<noteq> ''{}'' \<and>
    JSON_parse env (js_trim (strip_fences reply)) = None \<longrightarrow>
      snd (scanReceipt env f) = Inl (Error ''Failed to scan receipt''))"
proof (intro conjI impI)
  assume "CHR 0x60 \<notin> set body"
  then have "strip_fences (''```json'' @ body @ ''```'') = body"
    by (rule strip_fences_fenced)
  then show "js_trim (strip_fences (''```json'' @ body @ ''```'')) = js_trim body"
    by (rule arg_cong)
next
  assume "generateContent env
        \<lparr>mimeType = (if file_type f = [] then ''image/jpeg'' else file_type f),
         data64 = Base64 (bytes f)\<rparr> prompt = Some reply \<and>
    (js_trim (strip_fences reply) = [] \<or> js_trim (strip_fences reply) = ''{}'')"
  then show "snd (scanReceipt env f) = Inr EmptyResult"
    by (auto simp: scanReceipt_def Let_def)
next
  assume "generateContent env
        \<lparr>mimeType = (if file_type f = [] then ''image/jpeg'' else file_type f),
         data64 = Base64 (bytes f)\<rparr> prompt = Some reply \<and>
    js_trim (strip_fences reply) \<noteq> [] \<and> js_trim (strip_fences reply) \<noteq> ''{}'' \<and>
    JSON_parse env (js_trim (strip_fences reply)) = None"
  then show "snd (scanReceipt env f) = Inl (Error ''Failed to scan receipt'')"
    by (simp add: scanReceipt_def Let_def)
qed

text \<open>
  The theorem at the fenced empty object of the claim, which gives the empty result, and
  at a response in prose, which gives the error.
\<close>

lemmas canned_defs =
  canned_env_def photo_def response_zzz_def response_refund_def response_cafe_def
  response_spaced_def response_null_def response_list_def jan15_def

theorem scanReceipt_empty_or_failed_witness:
  "js_trim (strip_fences (''```json'' @ ''\<newline>{}\<newline>'' @ ''```'')) = ''{}'' \<and>
   snd (scanReceipt (canned_env ''```json\<newline>{}\<newline>```'') photo) = Inr EmptyResult \<and>
   JSON_parse (canned_env ''I could not read this image.'') ''I could not read this image.'' = None \<and>
   snd (scanReceipt (canned_env ''I could not read this image.'') photo)
     = Inl (Error ''Failed to scan receipt'')"
proof -
  let ?fenced = "''```json\<newline>{}\<newline>```''"
  let ?prose = "''I could not read this image.''"
  let ?req = "\<lparr>mimeType = (if file_type photo = [] then ''image/jpeg'' else file_type photo),
               data64 = Base64 (bytes photo)\<rparr>"
  note t = scanReceipt_empty_or_failed
  have "CHR 0x60 \<notin> set ''\<newline>{}\<newline>''" by simp
  with t [where body = "''\<newline>{}\<newline>''"]
  have "js_trim (strip_fences (''```json'' @ ''\<newline>{}\<newline>'' @ ''```''))
      = js_trim ''\<newline>{}\<newline>''"
    by blast
  then have fenced: "js_trim (strip_fences (''```json'' @ ''\<newline>{}\<newline>'' @ ''```'')) = ''{}''"
    by (simp add: js_trim_def js_space_def)
  then have raw1: "js_trim (strip_fences ?fenced) = [] \<or> js_trim (strip_fences ?fenced) = ''{}''"
    by simp
  have gen1: "generateContent (canned_env ?fenced) ?req prompt = Some ?fenced"
    by (simp add: canned_env_def)
  from t [where env = "canned_env ?fenced" and f = photo and reply = ?fenced] gen1 raw1
  have empty: "snd (scanReceipt (canned_env ?fenced) photo) = Inr EmptyResult"
    by blast
  have nojson: "JSON_parse (canned_env ?prose) ?prose = None"
    by (simp add: canned_defs)
  have raw2: "js_trim (strip_fences ?prose) = ?prose"
    by (simp add: js_trim_def js_space_def)
  have gen2: "generateContent (canned_env ?prose) ?req prompt = Some ?prose"
    by (simp add: canned_env_def)
  have ne: "js_trim (strip_fences ?prose) \<noteq> []" "js_trim (strip_fences ?prose) \<noteq> ''{}''"
    by (simp_all only: raw2) simp_all
  from nojson have nojson': "JSON_parse (canned_env ?prose) (js_trim (strip_fences ?prose)) = None"
    by (simp only: raw2)
  from t [where env = "canned_env ?prose" and f = photo and reply = ?prose] gen2 ne nojson'
  have failed: "snd (scanReceipt (canned_env ?prose) photo) = Inl (Error ''Failed to scan receipt'')"
    by blast
  from fenced empty nojson failed show ?thesis by blast
qed

text \<open>
  Against claim C6 as it is worded: a response that is not JSON does not give the empty
  result, the operation throws; and an empty object written with a space between its
  braces does not give the empty result either, but a receipt with the amount \<open>NaN\<close>.
\<close>

theorem unparsable_response_is_an_error:
  "js_trim (strip_fences ''Sorry, this is not a receipt.'') = ''Sorry, this is not a receipt.'' \<and>
   JSON_parse (canned_env ''Sorry, this is not a receipt.'') ''Sorry, this is not a receipt.''
     = None \<and>
   snd (scanReceipt (canned_env ''Sorry, this is not a receipt.'') photo)
     = Inl (Error ''Failed to scan receipt'') \<and>
   snd (scanReceipt (canned_env ''Sorry, this is not a receipt.'') photo) \<noteq> Inr EmptyResult \<and>
   JSON_parse (canned_env response_spaced) (js_trim (strip_fences response_spaced))
     = Some (JObj []) \<and>
   snd (scanReceipt (canned_env response_spaced) photo)
     = Inr (Receipt \<lparr>receipt_amount = NaN, receipt_date = None,
                     receipt_description = JStr [], receipt_merchantName = JStr [],
                     receipt_category = JStr ''other-expense''\<rparr>)"
  by (simp add: scanReceipt_def receipt_of_def Let_def canned_defs js_trim_def js_space_def)

text \<open>
  Claim C7, as the code has it. For a response that parses to an object, the operation
  returns a receipt whose amount is \<open>Number(parsed.amount)\<close> (a JSON number is returned as
  it is, with its sign), whose date is \<open>new Date(parsed.date)\<close> when \<open>parsed.date\<close> is truthy
  and \<open>null\<close> otherwise, and whose category is the extracted value, whatever it is, and
  \<open>other-expense\<close> only when the category is absent or \<open>null\<close>. A response that parses to
  \<open>null\<close> makes the operation throw; one that parses to a number, a string, a boolean or
  an array gives the receipt with the amount \<open>NaN\<close>, no date and the default category.
\<close>

theorem scanReceipt_normalisation:
  assumes "generateContent env
        \<lparr>mimeType = (if file_type f = [] then ''image/jpeg'' else file_type f),
         data64 = Base64 (bytes f)\<rparr> prompt = Some reply"
    and "js_trim (strip_fences reply) \<noteq> []" and "js_trim (strip_fences reply) \<noteq> ''{}''"
    and "JSON_parse env (js_trim (strip_fences reply)) = Some parsed"
  shows "(\<forall>kvs. parsed = JObj kvs \<longrightarrow>
           (\<exists>r. snd (scanReceipt env f) = Inr (Receipt r) \<and>
              receipt_amount r = js_Number env (map_of kvs ''amount'') \<and>
              (\<forall>n. map_of kvs ''amount'' = Some (JNum n) \<longrightarrow> receipt_amount r = Num n) \<and>
              receipt_date r =
                (if js_truthy (map_of kvs ''date'')
                 then map_option (new_Date env) (map_of kvs ''date'') else None) \<and>
              (\<forall>v. map_of kvs ''category'' = Some v \<and> v \<noteq> JNull \<longrightarrow> receipt_category r = v) \<and>
              (map_of kvs ''category'' = None \<or> map_of kvs ''category'' = Some JNull \<longrightarrow>
                 receipt_category r = JStr ''other-expense''))) \<and>
         (parsed = JNull \<longrightarrow> snd (scanReceipt env f) = Inl (Error ''Failed to scan receipt'')) \<and>
         (parsed \<noteq> JNull \<and> (\<forall>kvs. parsed \<noteq> JObj kvs) \<longrightarrow>
            snd (scanReceipt env f)
              = Inr (Receipt \<lparr>receipt_amount = NaN, receipt_date = None,
                              receipt_description = JStr [], receipt_merchantName = JStr [],
                              receipt_category = JStr ''other-expense''\<rparr>))"
proof (intro conjI allI impI)
  fix kvs
  assume obj: "parsed = JObj kvs"
  define r where
    "r = \<lparr>receipt_amount = js_Number env (map_of kvs ''amount''),
          receipt_date =
            (case map_of kvs ''date'' of
               None \<Rightarrow> None
             | Some v \<Rightarrow> if js_truthy (map_of kvs ''date'') then Some (new_Date env v) else None),
          receipt_description = nullish (map_of kvs ''description'') (JStr []),
          receipt_merchantName = nullish (map_of kvs ''merchantName'') (JStr []),
          receipt_category = nullish (map_of kvs ''category'') (JStr ''other-expense'')\<rparr>"
  have "receipt_of env (JObj kvs) = Inr r"
    by (simp add: receipt_of_def r_def)
  with assms obj have run: "snd (scanReceipt env f) = Inr (Receipt r)"
    by (simp add: scanReceipt_def Let_def)
  have amount: "receipt_amount r = js_Number env (map_of kvs ''amount'')"
    by (simp add: r_def)
  then have number: "\<forall>n. map_of kvs ''amount'' = Some (JNum n) \<longrightarrow> receipt_amount r = Num n"
    by simp
  have date: "receipt_date r =
             (if js_truthy (map_of kvs ''date'')
              then map_option (new_Date env) (map_of kvs ''date'') else None)"
    by (cases "map_of kvs ''date''") (simp_all add: r_def)
  have kept: "\<forall>v. map_of kvs ''category'' = Some v \<and> v \<noteq> JNull \<longrightarrow> receipt_category r = v"
  proof (intro allI impI)
    fix v
    assume "map_of kvs ''category'' = Some v \<and> v \<noteq> JNull"
    then show "receipt_category r = v"
      by (cases v) (simp_all add: r_def)
  qed
  have dflt: "map_of kvs ''category'' = None \<or> map_of kvs ''category'' = Some JNull \<longrightarrow>
              receipt_category r = JStr ''other-expense''"
    by (auto simp: r_def)
  from run amount number date kept dflt
  show "\<exists>r. snd (scanReceipt env f) = Inr (Receipt r) \<and>
              receipt_amount r = js_Number env (map_of kvs ''amount'') \<and>
              (\<forall>n. map_of kvs ''amount'' = Some (JNum n) \<longrightarrow> receipt_amount r = Num n) \<and>
              receipt_date r =
                (if js_truthy (map_of kvs ''date'')
                 then map_option (new_Date env) (map_of kvs ''date'') else None) \<and>
              (\<forall>v. map_of kvs ''category'' = Some v \<and> v \<noteq> JNull \<longrightarrow> receipt_category r = v) \<and>
              (map_of kvs ''category'' = None \<or> map_of kvs ''category'' = Some JNull \<longrightarrow>
                 receipt_category r = JStr ''other-expense'')"
    by blast
next
  assume "parsed = JNull"
  with assms show "snd (scanReceipt env f) = Inl (Error ''Failed to scan receipt'')"
    by (simp add: scanReceipt_def receipt_of_def Let_def)
next
  assume other: "parsed \<noteq> JNull \<and> (\<forall>kvs. parsed \<noteq> JObj kvs)"
  then have "receipt_of env parsed
      = Inr \<lparr>receipt_amount = NaN, receipt_date = None,
             receipt_description = JStr [], receipt_merchantName = JStr [],
             receipt_category = JStr ''other-expense''\<rparr>"
    by (cases parsed) (simp_all add: receipt_of_def)
  with assms show "snd (scanReceipt env f)
              = Inr (Receipt \<lparr>receipt_amount = NaN, receipt_date = None,
                              receipt_description = JStr [], receipt_merchantName = JStr [],
                              receipt_category = JStr ''other-expense''\<rparr>)"
    by (simp add: scanReceipt_def Let_def)
qed

text \<open>
  The theorem at a response with a positive amount, a date and a category of the
  vocabulary: the receipt carries them as they are; at the response \<open>null\<close>, which makes
  the operation throw; and at the response \<open>[]\<close>, which gives the receipt of defaults.
\<close>

theorem scanReceipt_normalisation_witness:
  "snd (scanReceipt (canned_env response_cafe) photo)
     = Inr (Receipt \<lparr>receipt_amount = Num 42, receipt_date = Some (ValidDate jan15),
                     receipt_description = JStr [], receipt_merchantName = JStr ''Cafe'',
                     receipt_category = JStr ''food''\<rparr>) \<and>
   snd (scanReceipt (canned_env response_null) photo) = Inl (Error ''Failed to scan receipt'') \<and>
   snd (scanReceipt (canned_env response_list) photo)
     = Inr (Receipt \<lparr>receipt_amount = NaN, receipt_date = None,
                     receipt_description = JStr [], receipt_merchantName = JStr [],
                     receipt_category = JStr ''other-expense''\<rparr>)"
proof -
  let ?kvs = "[(''amount'', JNum 42), (''date'', JStr ''2024-01-15''),
               (''merchantName'', JStr ''Cafe''), (''category'', JStr ''food'')]"
  let ?req = "\<lparr>mimeType = (if file_type photo = [] then ''image/jpeg'' else file_type photo),
               data64 = Base64 (bytes photo)\<rparr>"
  have raw: "js_trim (strip_fences response_cafe) = response_cafe"
    "js_trim (strip_fences response_null) = response_null"
    "js_trim (strip_fences response_list) = response_list"
    by (simp_all add: response_cafe_def response_null_def response_list_def js_trim_def
        js_space_def)
  have gen: "generateContent (canned_env response_cafe) ?req prompt = Some response_cafe"
    "generateContent (canned_env response_null) ?req prompt = Some response_null"
    "generateContent (canned_env response_list) ?req prompt = Some response_list"
    by (simp_all add: canned_env_def)
  have ne: "js_trim (strip_fences response_cafe) \<noteq> []"
    "js_trim (strip_fences response_cafe) \<noteq> ''{}''"
    "js_trim (strip_fences response_null) \<noteq> []"
    "js_trim (strip_fences response_null) \<noteq> ''{}''"
    "js_trim (strip_fences response_list) \<noteq> []"
    "js_trim (strip_fences response_list) \<noteq> ''{}''"
    by (simp_all add: raw) (simp_all add: response_cafe_def response_null_def response_list_def)
  have parsed: "JSON_parse (canned_env response_cafe) (js_trim (strip_fences response_cafe))
      = Some (JObj ?kvs)"
    "JSON_parse (canned_env response_null) (js_trim (strip_fences response_null)) = Some JNull"
    "JSON_parse (canned_env response_list) (js_trim (strip_fences response_list))
      = Some (JArr [])"
    by (simp_all add: raw) (simp_all add: canned_defs)
  from scanReceipt_normalisation [OF gen(1) ne(1,2) parsed(1)] obtain r where
    run: "snd (scanReceipt (canned_env response_cafe) photo) = Inr (Receipt r)"
    and amount: "receipt_amount r = js_Number (canned_env response_cafe) (map_of ?kvs ''amount'')"
    and date: "receipt_date r =
             (if js_truthy (map_of ?kvs ''date'')
              then map_option (new_Date (canned_env response_cafe)) (map_of ?kvs ''date'')
              else None)"
    and category: "\<forall>v. map_of ?kvs ''category'' = Some v \<and> v \<noteq> JNull \<longrightarrow> receipt_category r = v"
    by blast
  from amount have "receipt_amount r = Num 42" by simp
  moreover from date have "receipt_date r = Some (ValidDate jan15)"
    by (simp add: canned_env_def)
  moreover from category have "receipt_category r = JStr ''food''" by simp
  moreover have "snd (scanReceipt (canned_env response_cafe) photo)
     = Inr (Receipt \<lparr>receipt_amount = Num 42, receipt_date = Some (ValidDate jan15),
                     receipt_description = JStr [], receipt_merchantName = JStr ''Cafe'',
                     receipt_category = JStr ''food''\<rparr>)"
    by (simp add: scanReceipt_def receipt_of_def Let_def raw canned_env_def)
      (simp add: response_cafe_def response_refund_def response_zzz_def)
  ultimately have cafe: "snd (scanReceipt (canned_env response_cafe) photo)
     = Inr (Receipt \<lparr>receipt_amount = Num 42, receipt_date = Some (ValidDate jan15),
                     receipt_description = JStr [], receipt_merchantName = JStr ''Cafe'',
                     receipt_category = JStr ''food''\<rparr>)"
    using run by simp
  from scanReceipt_normalisation [OF gen(2) ne(3,4) parsed(2)]
  have null: "snd (scanReceipt (canned_env response_null) photo)
      = Inl (Error ''Failed to scan receipt'')"
    by blast
  from scanReceipt_normalisation [OF gen(3) ne(5,6) parsed(3)]
  have list: "snd (scanReceipt (canned_env response_list) photo)
     = Inr (Receipt \<lparr>receipt_amount = NaN, receipt_date = None,
                     receipt_description = JStr [], receipt_merchantName = JStr [],
                     receipt_category = JStr ''other-expense''\<rparr>)"
    by simp
  from cafe null list show ?thesis by simp
qed

text \<open>
  Against claim C7 as it is worded: for the response of its example the category returned
  is \<open>zzz\<close>, which is not in the vocabulary; and for a response with a negative amount
  and no date the amount returned is negative and the date is \<open>null\<close>.
\<close>

theorem unknown_category_is_kept:
  "snd (scanReceipt (canned_env response_zzz) photo)
     = Inr (Receipt \<lparr>receipt_amount = Num 12.5, receipt_date = Some (ValidDate jan15),
                     receipt_description = JStr [], receipt_merchantName = JStr [],
                     receipt_category = JStr ''zzz''\<rparr>) \<and>
   ''zzz'' \<notin> set categories \<and>
   snd (scanReceipt (canned_env response_refund) photo)
     = Inr (Receipt \<lparr>receipt_amount = Num (- 12.5), receipt_date = None,
                     receipt_description = JStr [], receipt_merchantName = JStr [],
                     receipt_category = JStr ''other-expense''\<rparr>)"
  by (simp add: scanReceipt_def receipt_of_def Let_def canned_defs js_trim_def js_space_def
      categories_def)

text \<open>
  Claim C8, as the code has it. The operation has no check of the size: whatever the
  upload, it sends one request to the generative model, carrying all the bytes.
\<close>

theorem scanReceipt_always_calls_the_model:
  "fst (scanReceipt env f) =
     [(\<lparr>mimeType = (if file_type f = [] then ''image/jpeg'' else file_type f),
        data64 = Base64 (bytes f)\<rparr>, prompt)]"
  by (rule scanReceipt_calls)

text \<open>
  Against claim C8 as it is worded: an upload of 5 MB and one byte is sent to the model.
\<close>

theorem oversize_upload_reaches_the_model:
  "5 * 1024 * 1024 < length (bytes big_photo) \<and>
   fst (scanReceipt (canned_env response_zzz) big_photo)
     = [(\<lparr>mimeType = ''image/png'', data64 = Base64 (bytes big_photo)\<rparr>, prompt)]"
proof -
  have size: "5 * 1024 * 1024 < length (bytes big_photo)"
    by (simp add: big_photo_def)
  have png: "file_type big_photo = ''image/png''"
    by (simp add: big_photo_def)
  from size png show ?thesis
    by (simp add: scanReceipt_calls)
qed

end
